theory Spec2Isabelle
  imports Complex_Main
begin

section \<open>Values of the JavaScript runtime\<close>

text \<open>
  The request field \<open>amount\<close> is only ever compared with a numeric literal
  (\<open>amount > 5000\<close>, \<open>amount > 10000\<close>). JavaScript compares the number the value
  converts to, so an amount is modelled by that number: a finite double (a real), an
  infinity (JSON.parse reads \<open>1e999\<close> as Infinity) or NaN (a missing or non-numeric
  field). Comparing doubles is exact, so no rounding is involved.
\<close>

datatype js_number = Finite real | PosInf | NegInf | NaN

text \<open>\<open>x > c\<close> for a numeric literal \<open>c\<close>: every comparison with NaN is false.\<close>

fun js_gt :: "js_number \<Rightarrow> real \<Rightarrow> bool" where
  "js_gt (Finite x) c = (c < x)"
| "js_gt PosInf c = True"
| "js_gt NegInf c = False"
| "js_gt NaN c = False"

text \<open>\<open>a <= b\<close> between two numbers, as JavaScript evaluates it.\<close>

fun js_le :: "js_number \<Rightarrow> js_number \<Rightarrow> bool" where
  "js_le NaN b = False"
| "js_le a NaN = False"
| "js_le NegInf b = True"
| "js_le a PosInf = True"
| "js_le PosInf b = False"
| "js_le a NegInf = False"
| "js_le (Finite x) (Finite y) = (x \<le> y)"

text \<open>
  A \<open>Date\<close>: its epoch time in milliseconds and the hour of the day in the server's
  local time zone, which \<open>getHours()\<close> returns (0 to 23).
\<close>

record js_date =
  getTime :: int
  getHours :: nat

section \<open>Risk score\<close>

text \<open>
  \<open>calculateRiskScore(transactionType, amount)\<close> has two parameters and reads the
  clock itself (\<open>new Date().getHours()\<close>); the model's first argument is the value
  that \<open>new Date()\<close> yields at the call. \<open>transactionType\<close> is compared with
  \<open>===\<close> against two string literals: a value that is not a string behaves like any
  string different from both.
\<close>

definition calculateRiskScore :: "js_date \<Rightarrow> string \<Rightarrow> js_number \<Rightarrow> nat" where
  "calculateRiskScore now transactionType amount =
     (let score = 0;
          score = (if js_gt amount 5000 then score + 30 else score);
          score = (if js_gt amount 10000 then score + 20 else score);
          score = (if transactionType = ''INTERNATIONAL'' then score + 25 else score);
          score = (if transactionType = ''CRYPTO'' then score + 35 else score);
          hour = getHours now;
          score = (if hour < 6 \<or> 22 < hour then score + 15 else score)
      in min score 100)"

text \<open>The band shown to the caller of \<open>/biometric/initiate\<close>.\<close>

definition riskLevel :: "nat \<Rightarrow> string" where
  "riskLevel riskScore =
     (if 70 < riskScore then ''HIGH'' else if 40 < riskScore then ''MEDIUM'' else ''LOW'')"

section \<open>Documents and keys\<close>

text \<open>
  \<open>VoiceProfileSchema\<close>: the only unique index is on \<open>userId\<close>; \<open>phoneNumber\<close> is
  required, not unique. \<open>verificationAttempts\<close> starts at 0 and only ever changes by
  \<open>+= 1\<close> or \<open>= 0\<close>, so it is a natural number (a double is exact far beyond any
  count a profile can reach). The metadata field \<open>location\<close> is never written.
\<close>

record voice_profile =
  userId :: string
  phoneNumber :: string
  voicePrint :: string
  enrollmentDate :: js_date
  lastVerification :: "js_date option"
  verificationAttempts :: nat
  securityLevel :: string
  deviceInfo :: "string option"
  carrier :: string

text \<open>\<open>AuditLogSchema\<close>.\<close>

record audit_log =
  audit_sessionId :: string
  audit_phoneNumber :: string
  action :: string
  result :: string
  timestamp :: js_date
  ipAddress :: "string option"
  audit_riskScore :: "nat option"

text \<open>
  The object that \<open>/biometric/initiate\<close> serialises under the key \<open>session:\<close> followed by the session id.
  An ENROLLMENT session has no \<open>riskScore\<close>, \<open>transactionType\<close> or \<open>amount\<close>.
\<close>

record session =
  session_phoneNumber :: string
  callSid :: string
  session_type :: string
  session_riskScore :: "nat option"
  session_transactionType :: "string option"
  session_amount :: "js_number option"
  session_timestamp :: js_date

text \<open>The arguments of \<open>client.calls.create\<close> that vary: the script URL and the callee.\<close>

record call_request =
  call_url :: string
  call_to :: string

text \<open>
  The arguments of \<open>client.messages.create\<close> that vary: the recipient and the first
  eight characters of the session id quoted in the body.
\<close>

record sms =
  sms_to :: string
  sms_id :: string

section \<open>The state outside the process\<close>

text \<open>
  The two MongoDB collections in insertion order (a document's position stands for its
  \<open>_id\<close>), the Redis keys, and the requests made to the call provider. The four
  key prefixes \<open>session:\<close>, \<open>confirm:\<close>, \<open>challenge:\<close> and \<open>blocked:\<close>
  never overlap, so each is a map of its own, from the rest of the key to the TTL in
  seconds given to \<open>setex\<close> and the value. Redis drops a key when its TTL has run
  out; that is a step of the environment, not of a handler. \<open>calls\<close> lists every
  invocation of \<open>client.calls.create\<close> with the call sid it returned, or None when
  it threw.
\<close>

record world =
  VoiceProfile :: "voice_profile list"
  AuditLog :: "audit_log list"
  redis_session :: "string \<rightharpoonup> nat \<times> session"
  redis_confirm :: "string \<rightharpoonup> nat \<times> nat"
  redis_challenge :: "string \<rightharpoonup> nat \<times> nat"
  redis_blocked :: "string \<rightharpoonup> nat \<times> string"
  calls :: "(call_request \<times> string option) list"
  messages :: "sms list"

text \<open>
  What the collaborators answer during one request: the values of \<open>uuidv4()\<close>,
  \<open>new Date()\<close>, \<open>Math.random()\<close> and \<open>bcrypt.hashSync\<close>, and for each awaited
  operation whether it succeeds or throws. Every handler awaits each kind of operation
  at most once, so one flag per kind is one flag per await. One request reads the clock
  at a single instant.

  The two codes are drawn with \<open>Math.floor(1000 + Math.random() * 9000)\<close> and
  \<open>Math.floor(100000 + Math.random() * 900000)\<close>. The runtime evaluates the product
  and the sum on doubles, rounding each, and the floor of the rounded sum can differ by
  one from the floor of the exact sum. The integer that the runtime arrives at is
  therefore part of the answer (\<open>drawn_challenge\<close>, \<open>drawn_confirmationCode\<close>) and
  is not recomputed from \<open>Math_random\<close>.
\<close>

record collab =
  uuidv4 :: string
  new_Date :: js_date
  Math_random :: real
  drawn_challenge :: nat
  drawn_confirmationCode :: nat
  bcrypt_hashSync :: string
  findOne_ok :: bool
  profile_save_ok :: bool
  audit_save_ok :: bool
  redis_get_ok :: bool
  redis_setex_ok :: bool
  calls_create :: "string option"
  messages_create_ok :: bool

text \<open>
  \<open>VoiceProfile.findOne({ phoneNumber })\<close>: the first document with that phone
  number, with its position.
\<close>

fun findOne :: "string \<Rightarrow> voice_profile list \<Rightarrow> (nat \<times> voice_profile) option" where
  "findOne phone [] = None"
| "findOne phone (p # ps) =
     (if phoneNumber p = phone then Some (0, p)
      else map_option (\<lambda>(i, q). (Suc i, q)) (findOne phone ps))"

text \<open>
  Saving a new profile runs the schema's validators (a required string must not be
  empty) and the unique index on \<open>userId\<close>.
\<close>

definition insert_accepted :: "voice_profile \<Rightarrow> voice_profile list \<Rightarrow> bool" where
  "insert_accepted p ps \<longleftrightarrow>
     userId p \<noteq> [] \<and> phoneNumber p \<noteq> [] \<and> voicePrint p \<noteq> [] \<and> userId p \<notin> userId ` set ps"

section \<open>POST /biometric/initiate\<close>

datatype initiate_response =
    Enrollment_started string
  | Verification_started string string
  | Status_500

text \<open>
  \<open>Enrollment_started sessionId\<close> and \<open>Verification_started sessionId riskLevel\<close>
  are the two success bodies, \<open>Status_500\<close> the answer of the \<open>catch\<close> block. The
  handler never reads a \<open>blocked:\<close> key.
\<close>

definition initiate ::
  "collab \<Rightarrow> string \<Rightarrow> string \<Rightarrow> js_number \<Rightarrow> world \<Rightarrow> initiate_response \<times> world" where
  "initiate c phone transactionType amount w =
     (let sessionId = uuidv4 c in
      if \<not> findOne_ok c then (Status_500, w)
      else case findOne phone (VoiceProfile w) of
        None \<Rightarrow>
          (let request = \<lparr>call_url = ''https://api.redessip.pe/biometric/enrollment/'' @ sessionId,
                          call_to = phone\<rparr>;
               w1 = w\<lparr>calls := calls w @ [(request, calls_create c)]\<rparr>
           in case calls_create c of
                None \<Rightarrow> (Status_500, w1)
              | Some sid \<Rightarrow>
                  if \<not> redis_setex_ok c then (Status_500, w1)
                  else (Enrollment_started sessionId,
                        w1\<lparr>redis_session := (redis_session w1)(sessionId \<mapsto> (3600,
                          \<lparr>session_phoneNumber = phone, callSid = sid,
                           session_type = ''ENROLLMENT'', session_riskScore = None,
                           session_transactionType = None, session_amount = None,
                           session_timestamp = new_Date c\<rparr>))\<rparr>))
      | Some (i, profile) \<Rightarrow>
          (let riskScore = calculateRiskScore (new_Date c) transactionType amount;
               request = \<lparr>call_url = ''https://api.redessip.pe/biometric/verify/'' @ sessionId,
                          call_to = phone\<rparr>;
               w1 = w\<lparr>calls := calls w @ [(request, calls_create c)]\<rparr>
           in case calls_create c of
                None \<Rightarrow> (Status_500, w1)
              | Some sid \<Rightarrow>
                  if \<not> redis_setex_ok c then (Status_500, w1)
                  else (Verification_started sessionId (riskLevel riskScore),
                        w1\<lparr>redis_session := (redis_session w1)(sessionId \<mapsto> (3600,
                          \<lparr>session_phoneNumber = phone, callSid = sid,
                           session_type = ''VERIFICATION'', session_riskScore = Some riskScore,
                           session_transactionType = Some transactionType,
                           session_amount = Some amount,
                           session_timestamp = new_Date c\<rparr>))\<rparr>)))"

section \<open>The voice scripts\<close>

text \<open>
  What a handler tells the caller, by the sentence spoken:
  \<^item> \<open>Verify_greeting\<close>: "Sistema de verificacion Redessip Peru. Por seguridad, ...";
  \<^item> \<open>Challenge_prompt n\<close>: "Por favor, despues del tono, diga: Mi codigo de verificacion es n";
  \<^item> \<open>Verified\<close>: "Verificacion exitosa. Su transaccion ha sido autorizada.";
  \<^item> \<open>Not_verified\<close>: "No pudimos verificar su identidad. Por seguridad, la transaccion ha sido bloqueada.";
  \<^item> \<open>Account_blocked\<close>: "Su cuenta ha sido bloqueada temporalmente. Contacte a soporte.";
  \<^item> \<open>System_error\<close>: "Error en el sistema. Por favor, intente mas tarde.";
  \<^item> \<open>Profile_created n\<close>: "Perfil creado exitosamente. Su codigo de confirmacion es: n. Repito: n";
  \<^item> \<open>Thanks\<close>: "Gracias por confiar en Redessip Peru. Su voz esta ahora protegida.";
  \<^item> \<open>Enrollment_problem\<close>: "Hubo un problema al procesar su enrollment. Por favor, intente mas tarde."
\<close>

datatype prompt =
    Verify_greeting
  | Challenge_prompt nat
  | Verified
  | Not_verified
  | Account_blocked
  | System_error
  | Profile_created nat
  | Thanks
  | Enrollment_problem

text \<open>A TwiML verb; \<open>Record action maxLength\<close> posts the recording to \<open>action\<close>.\<close>

datatype twiml_verb = Say prompt | Record string nat | Hangup

text \<open>The fields of a provider callback that the handlers read.\<close>

record callback =
  sessionId :: string
  RecordingUrl :: "string option"
  From :: "string option"
  FromCarrier :: "string option"
  ip :: "string option"

section \<open>The placeholder biometric functions\<close>

text \<open>
  \<open>generateVoicePrint\<close> calls \<open>bcrypt.hashSync(recordingUrl + Date.now(), 10)\<close>.
  With a recording URL the sum is a string and the salted hash is the collaborator's
  answer. Without one (\<open>RecordingUrl\<close> missing from the callback) the sum
  \<open>undefined + Date.now()\<close> is the number NaN, and \<open>bcrypt.hashSync\<close> throws on an
  argument that is not a string: the result is None.
  \<open>verifyVoicePrint\<close> ignores both arguments and returns
  \<open>Math.random() * 0.4 + 0.6\<close>; the product and the sum are taken over the reals,
  without the rounding of doubles. The threshold test \<open>verificationScore > 0.85\<close> on
  the returned double is exact: no double lies strictly between the double nearest to
  0.85 and 0.85 itself.
\<close>

definition generateVoicePrint :: "collab \<Rightarrow> string option \<Rightarrow> string option" where
  "generateVoicePrint c recordingUrl =
     (case recordingUrl of None \<Rightarrow> None | Some url \<Rightarrow> Some (bcrypt_hashSync c))"

definition verifyVoicePrint :: "collab \<Rightarrow> string option \<Rightarrow> string \<Rightarrow> real" where
  "verifyVoicePrint c recordingUrl storedPrint = Math_random c * 0.4 + 0.6"

section \<open>POST /biometric/verify/:sessionId\<close>

text \<open>
  The handler draws a four-digit challenge, stores it under \<open>challenge:sessionId\<close>
  for 120 seconds and speaks it. It has no \<open>try\<close>: when \<open>setex\<close> throws, no
  response is sent (None).
\<close>

definition verify :: "collab \<Rightarrow> string \<Rightarrow> world \<Rightarrow> twiml_verb list option \<times> world" where
  "verify c sid w =
     (let challenge = drawn_challenge c in
      if \<not> redis_setex_ok c then (None, w)
      else (Some [Say Verify_greeting, Say (Challenge_prompt challenge),
                  Record (''/biometric/process-verification/'' @ sid) 8],
            w\<lparr>redis_challenge := (redis_challenge w)(sid \<mapsto> (120, challenge))\<rparr>))"

section \<open>POST /biometric/process-enrollment/:sessionId\<close>

text \<open>
  \<open>redis.get\<close> answers null for a missing key and \<open>JSON.parse(null)\<close> is null
  without throwing. \<open>generateVoicePrint\<close> runs next and throws when the callback
  has no recording URL; then the first read of \<open>sessionData.phoneNumber\<close> throws
  when the session is null. Either way the \<open>catch\<close> block speaks the apology and
  nothing has been written. The \<open>catch\<close> block adds to whatever the script already
  holds, and the hangup follows in every case. The session is read and never deleted,
  and its \<open>type\<close> is not looked at.
\<close>

definition process_enrollment :: "collab \<Rightarrow> callback \<Rightarrow> world \<Rightarrow> twiml_verb list \<times> world" where
  "process_enrollment c req w =
     (let catch = (\<lambda>twiml w'. (twiml @ [Say Enrollment_problem, Hangup], w')) in
      if \<not> redis_get_ok c then catch [] w
      else case generateVoicePrint c (RecordingUrl req) of
        None \<Rightarrow> catch [] w
      | Some voicePrint' \<Rightarrow>
          (case redis_session w (sessionId req) of
             None \<Rightarrow> catch [] w
           | Some (ttl, sessionData) \<Rightarrow>
               (let profile = \<lparr>userId = uuidv4 c,
                               phoneNumber = session_phoneNumber sessionData,
                               voicePrint = voicePrint',
                               enrollmentDate = new_Date c,
                               lastVerification = None,
                               verificationAttempts = 0,
                               securityLevel = ''MEDIUM'',
                               deviceInfo = From req,
                               carrier = (case FromCarrier req of
                                            None \<Rightarrow> ''Unknown''
                                          | Some s \<Rightarrow> if s = [] then ''Unknown'' else s)\<rparr>
                in if \<not> (profile_save_ok c \<and> insert_accepted profile (VoiceProfile w))
                   then catch [] w
                   else
                     (let w1 = w\<lparr>VoiceProfile := VoiceProfile w @ [profile]\<rparr>;
                          confirmationCode = drawn_confirmationCode c
                      in if \<not> redis_setex_ok c then catch [] w1
                         else
                           (let w2 = w1\<lparr>redis_confirm := (redis_confirm w1)
                                       (session_phoneNumber sessionData \<mapsto> (300, confirmationCode))\<rparr>;
                                twiml = [Say (Profile_created confirmationCode), Say Thanks]
                            in if \<not> audit_save_ok c then catch twiml w2
                               else (twiml @ [Hangup],
                                     w2\<lparr>AuditLog := AuditLog w2 @
                                       [\<lparr>audit_sessionId = sessionId req,
                                         audit_phoneNumber = session_phoneNumber sessionData,
                                         action = ''ENROLLMENT_SUCCESS'',
                                         result = ''SUCCESS'',
                                         timestamp = new_Date c,
                                         ipAddress = ip req,
                                         audit_riskScore = None\<rparr>]\<rparr>))))))"

section \<open>POST /biometric/process-verification/:sessionId\<close>

text \<open>
  A missing session or a missing profile makes the handler throw on the first field it
  reads (\<open>sessionData.phoneNumber\<close>, \<open>profile.voicePrint\<close>). \<open>profile.save()\<close>
  writes the document that \<open>findOne\<close> returned, in place. Only the success branch
  writes an audit document. The \<open>challenge:\<close> key is not read.
\<close>

definition process_verification :: "collab \<Rightarrow> callback \<Rightarrow> world \<Rightarrow> twiml_verb list \<times> world" where
  "process_verification c req w =
     (let catch = (\<lambda>twiml w'. (twiml @ [Say System_error, Hangup], w')) in
      if \<not> redis_get_ok c then catch [] w
      else case redis_session w (sessionId req) of
        None \<Rightarrow> catch [] w
      | Some (ttl, sessionData) \<Rightarrow>
          if \<not> findOne_ok c then catch [] w
          else (case findOne (session_phoneNumber sessionData) (VoiceProfile w) of
            None \<Rightarrow> catch [] w
          | Some (i, profile) \<Rightarrow>
              (let verificationScore = verifyVoicePrint c (RecordingUrl req) (voicePrint profile) in
               if 0.85 < verificationScore then
                 (let profile' = profile\<lparr>lastVerification := Some (new_Date c),
                                          verificationAttempts := 0\<rparr>
                  in if \<not> profile_save_ok c then catch [] w
                     else
                       (let w1 = w\<lparr>VoiceProfile := (VoiceProfile w)[i := profile']\<rparr>;
                            twiml = [Say Verified]
                        in if \<not> messages_create_ok c then catch twiml w1
                           else
                             (let w2 = w1\<lparr>messages := messages w1 @
                                         [\<lparr>sms_to = session_phoneNumber sessionData,
                                           sms_id = take 8 (sessionId req)\<rparr>]\<rparr>
                              in if \<not> audit_save_ok c then catch twiml w2
                                 else (twiml @ [Hangup],
                                       w2\<lparr>AuditLog := AuditLog w2 @
                                         [\<lparr>audit_sessionId = sessionId req,
                                           audit_phoneNumber = session_phoneNumber sessionData,
                                           action = ''VERIFICATION_SUCCESS'',
                                           result = ''SUCCESS'',
                                           timestamp = new_Date c,
                                           ipAddress = None,
                                           audit_riskScore = session_riskScore sessionData\<rparr>]\<rparr>))))
               else
                 (let profile' = profile\<lparr>verificationAttempts := verificationAttempts profile + 1\<rparr>
                  in if \<not> profile_save_ok c then catch [] w
                     else
                       (let w1 = w\<lparr>VoiceProfile := (VoiceProfile w)[i := profile']\<rparr>;
                            twiml = [Say Not_verified]
                        in if 3 \<le> verificationAttempts profile' then
                             (if \<not> redis_setex_ok c then catch twiml w1
                              else (twiml @ [Say Account_blocked, Hangup],
                                    w1\<lparr>redis_blocked := (redis_blocked w1)
                                      (session_phoneNumber sessionData \<mapsto> (3600, ''true''))\<rparr>))
                           else (twiml @ [Hangup], w1))))))"

text \<open>
  The handler answers with a script only. The outcome names of the specification are
  read off the script: the success sentence alone, the failure sentence alone, the
  failure sentence followed by the lockout sentence; any script that holds the system
  error sentence is an error.
\<close>

datatype outcome = SUCCESS | FAILURE | LOCKED_OUT | ERROR

definition outcome_of :: "twiml_verb list \<Rightarrow> outcome" where
  "outcome_of twiml =
     (if twiml = [Say Verified, Hangup] then SUCCESS
      else if twiml = [Say Not_verified, Hangup] then FAILURE
      else if twiml = [Say Not_verified, Say Account_blocked, Hangup] then LOCKED_OUT
      else ERROR)"

section \<open>A running example\<close>

text \<open>
  The phone number of the API documentation, enrolled, with a session of each kind, and
  collaborators that all answer; \<open>at_hour h\<close> is an instant at local hour \<open>h\<close>.
\<close>

definition at_hour :: "nat \<Rightarrow> js_date" where
  "at_hour h = \<lparr>getTime = 1705314600000, getHours = h\<rparr>"

definition P1 :: voice_profile where
  "P1 = \<lparr>userId = ''u-1'', phoneNumber = ''+51999888777'', voicePrint = ''$2a$10$print'',
         enrollmentDate = at_hour 9, lastVerification = None, verificationAttempts = 0,
         securityLevel = ''MEDIUM'', deviceInfo = None, carrier = ''Unknown''\<rparr>"

definition S1 :: session where
  "S1 = \<lparr>session_phoneNumber = ''+51999888777'', callSid = ''CA1'',
         session_type = ''ENROLLMENT'', session_riskScore = None,
         session_transactionType = None, session_amount = None,
         session_timestamp = at_hour 9\<rparr>"

definition S2 :: session where
  "S2 = \<lparr>session_phoneNumber = ''+51999888777'', callSid = ''CA2'',
         session_type = ''VERIFICATION'', session_riskScore = Some 0,
         session_transactionType = Some ''TRANSFER'', session_amount = Some (Finite 5000),
         session_timestamp = at_hour 10\<rparr>"

definition empty_world :: world where
  "empty_world = \<lparr>VoiceProfile = [], AuditLog = [], redis_session = Map.empty,
                  redis_confirm = Map.empty, redis_challenge = Map.empty,
                  redis_blocked = Map.empty, calls = [], messages = []\<rparr>"

definition enrolled_world :: "nat \<Rightarrow> world" where
  "enrolled_world n =
     empty_world\<lparr>VoiceProfile := [P1\<lparr>verificationAttempts := n\<rparr>],
                 redis_session := [''s-2'' \<mapsto> (3600, S2)]\<rparr>"

definition answering :: "string \<Rightarrow> nat \<Rightarrow> real \<Rightarrow> collab" where
  "answering uuid h r =
     \<lparr>uuidv4 = uuid, new_Date = at_hour h, Math_random = r,
      drawn_challenge = 5500, drawn_confirmationCode = 550000,
      bcrypt_hashSync = ''$2a$10$hash'', findOne_ok = True, profile_save_ok = True,
      audit_save_ok = True, redis_get_ok = True, redis_setex_ok = True,
      calls_create = Some ''CA9'', messages_create_ok = True\<rparr>"

definition recording :: "string \<Rightarrow> callback" where
  "recording sid = \<lparr>sessionId = sid, RecordingUrl = Some ''https://api.twilio.com/rec/1'',
                    From = Some ''+51999888777'', FromCarrier = None, ip = None\<rparr>"

section \<open>Auxiliary facts\<close>

lemmas example_defs =
  at_hour_def P1_def S1_def S2_def empty_world_def enrolled_world_def answering_def recording_def

lemma findOne_SomeD:
  "findOne ph ps = Some (i, p) \<Longrightarrow> i < length ps \<and> ps ! i = p \<and> phoneNumber p = ph"
proof (induction ps arbitrary: i)
  case Nil
  then show ?case by simp
next
  case (Cons q qs)
  show ?case
  proof (cases "phoneNumber q = ph")
    case True
    with Cons.prems show ?thesis by simp
  next
    case False
    with Cons.prems obtain j where j: "findOne ph qs = Some (j, p)" and i: "i = Suc j"
      by (auto split: option.splits)
    from Cons.IH [OF j] i show ?thesis by simp
  qed
qed

lemma findOne_update:
  "findOne ph ps = Some (i, p) \<Longrightarrow> phoneNumber p' = ph \<Longrightarrow> findOne ph (ps[i := p']) = Some (i, p')"
proof (induction ps arbitrary: i)
  case Nil
  then show ?case by simp
next
  case (Cons q qs)
  show ?case
  proof (cases "phoneNumber q = ph")
    case True
    with Cons.prems show ?thesis by simp
  next
    case False
    with Cons.prems obtain j where j: "findOne ph qs = Some (j, p)" and i: "i = Suc j"
      by (auto split: option.splits)
    from Cons.IH [OF j Cons.prems(2)] i False show ?thesis by simp
  qed
qed

lemma process_verification_failure:
  assumes "redis_get_ok c" and "redis_session w (sessionId req) = Some (ttl, s)"
    and "findOne_ok c" and "findOne (session_phoneNumber s) (VoiceProfile w) = Some (i, p)"
    and "\<not> 0.85 < verifyVoicePrint c (RecordingUrl req) (voicePrint p)"
    and "profile_save_ok c" and "redis_setex_ok c"
  shows "process_verification c req w =
    (if 3 \<le> verificationAttempts p + 1
     then ([Say Not_verified, Say Account_blocked, Hangup],
           w\<lparr>VoiceProfile := (VoiceProfile w)[i := p\<lparr>verificationAttempts := verificationAttempts p + 1\<rparr>],
             redis_blocked := (redis_blocked w)(session_phoneNumber s \<mapsto> (3600, ''true''))\<rparr>)
     else ([Say Not_verified, Hangup],
           w\<lparr>VoiceProfile := (VoiceProfile w)[i := p\<lparr>verificationAttempts := verificationAttempts p + 1\<rparr>]\<rparr>))"
  using assms by (simp add: process_verification_def Let_def)

lemma process_verification_success_profiles:
  assumes "redis_get_ok c" and "redis_session w (sessionId req) = Some (ttl, s)"
    and "findOne_ok c" and "findOne (session_phoneNumber s) (VoiceProfile w) = Some (i, p)"
    and "0.85 < verifyVoicePrint c (RecordingUrl req) (voicePrint p)"
    and "profile_save_ok c"
  shows "VoiceProfile (snd (process_verification c req w)) =
    (VoiceProfile w)[i := p\<lparr>lastVerification := Some (new_Date c), verificationAttempts := 0\<rparr>]"
  using assms by (simp add: process_verification_def Let_def)

lemma process_verification_failure_step:
  assumes ok: "redis_get_ok c \<and> findOne_ok c \<and> profile_save_ok c \<and> redis_setex_ok c"
    and s: "redis_session v (sessionId r) = Some (ttl, s) \<and> session_phoneNumber s = ph"
    and q: "findOne ph (VoiceProfile v) = Some (i, q)"
    and f: "verifyVoicePrint c (RecordingUrl r) (voicePrint q) \<le> 0.85"
    and R: "process_verification c r v = (t, v')"
  shows "findOne ph (VoiceProfile v') =
           Some (i, q\<lparr>verificationAttempts := verificationAttempts q + 1\<rparr>) \<and>
         redis_session v' = redis_session v \<and>
         redis_blocked v' = (if 3 \<le> verificationAttempts q + 1
                             then (redis_blocked v)(ph \<mapsto> (3600, ''true''))
                             else redis_blocked v) \<and>
         outcome_of t = (if 3 \<le> verificationAttempts q + 1 then LOCKED_OUT else FAILURE)"
proof -
  let ?q' = "q\<lparr>verificationAttempts := verificationAttempts q + 1\<rparr>"
  have ph: "phoneNumber ?q' = ph"
    using findOne_SomeD [OF q] by simp
  have eq: "process_verification c r v =
    (if 3 \<le> verificationAttempts q + 1
     then ([Say Not_verified, Say Account_blocked, Hangup],
           v\<lparr>VoiceProfile := (VoiceProfile v)[i := ?q'],
             redis_blocked := (redis_blocked v)(session_phoneNumber s \<mapsto> (3600, ''true''))\<rparr>)
     else ([Say Not_verified, Hangup], v\<lparr>VoiceProfile := (VoiceProfile v)[i := ?q']\<rparr>))"
    using ok s q f by (intro process_verification_failure [where ttl = ttl]) auto
  show ?thesis
    using R s findOne_update [OF q ph] unfolding eq
    by (auto simp: outcome_of_def split: if_splits)
qed

lemma js_gt_mono: "js_le a b \<Longrightarrow> js_gt a c \<Longrightarrow> js_gt b c"
  by (cases a; cases b) auto

section \<open>Properties\<close>

subsection \<open>Lockout and initiate\<close>

text \<open>
  C1. A phone number with a profile and a live lockout record (three failures are
  on the profile, \<open>blocked:+51999888777\<close> holds "true") asks for a verification: the
  handler places the call and answers with a new verification session. The lockout
  record that process-verification writes ("Bloquear cuenta temporalmente") is read
  nowhere, so no request is ever refused because of it.
\<close>

theorem initiate_ignores_lockout:
  "redis_blocked ((enrolled_world 3)\<lparr>redis_blocked := [''+51999888777'' \<mapsto> (3600, ''true'')]\<rparr>)
     ''+51999888777'' = Some (3600, ''true'') \<and>
   fst (initiate (answering ''s-9'' 12 0.5) ''+51999888777'' ''TRANSFER'' (Finite 100)
     ((enrolled_world 3)\<lparr>redis_blocked := [''+51999888777'' \<mapsto> (3600, ''true'')]\<rparr>)) =
     Verification_started ''s-9'' ''LOW'' \<and>
   calls (snd (initiate (answering ''s-9'' 12 0.5) ''+51999888777'' ''TRANSFER'' (Finite 100)
     ((enrolled_world 3)\<lparr>redis_blocked := [''+51999888777'' \<mapsto> (3600, ''true'')]\<rparr>))) =
     [(\<lparr>call_url = ''https://api.redessip.pe/biometric/verify/s-9'',
        call_to = ''+51999888777''\<rparr>, Some ''CA9'')]"
  by (simp add: initiate_def example_defs calculateRiskScore_def riskLevel_def Let_def)

subsection \<open>When the lockout record is written\<close>

text \<open>
  C2. A failed verification (score at most 0.85) with the stores answering adds one
  to the profile's failure count and writes the lockout record (TTL 3600) exactly when
  the new count is at least 3: never below 3, and again at 4, 5 and so on. Starting from
  a count of 0 with no lockout record, three failed verifications in a row see the
  counts 1, 2 and 3, and the lockout record appears with the third and not before.
\<close>

theorem lockout_when_count_at_least_3:
  assumes c1: "redis_get_ok c1 \<and> findOne_ok c1 \<and> profile_save_ok c1 \<and> redis_setex_ok c1"
    and s1: "redis_session w (sessionId r1) = Some (ttl1, s1) \<and> session_phoneNumber s1 = ph"
    and p: "findOne ph (VoiceProfile w) = Some (i, p)"
    and f1: "verifyVoicePrint c1 (RecordingUrl r1) (voicePrint p) \<le> 0.85"
    and R1: "process_verification c1 r1 w = (t1, w1)"
  shows "findOne ph (VoiceProfile w1) =
           Some (i, p\<lparr>verificationAttempts := verificationAttempts p + 1\<rparr>) \<and>
         redis_blocked w1 = (if 3 \<le> verificationAttempts p + 1
                             then (redis_blocked w)(ph \<mapsto> (3600, ''true''))
                             else redis_blocked w) \<and>
         outcome_of t1 = (if 3 \<le> verificationAttempts p + 1 then LOCKED_OUT else FAILURE) \<and>
         (verificationAttempts p = 0 \<and> redis_blocked w ph = None \<and>
          (redis_get_ok c2 \<and> findOne_ok c2 \<and> profile_save_ok c2 \<and> redis_setex_ok c2) \<and>
          (redis_get_ok c3 \<and> findOne_ok c3 \<and> profile_save_ok c3 \<and> redis_setex_ok c3) \<and>
          (redis_session w (sessionId r2) = Some (ttl2, s2) \<and> session_phoneNumber s2 = ph) \<and>
          (redis_session w (sessionId r3) = Some (ttl3, s3) \<and> session_phoneNumber s3 = ph) \<and>
          verifyVoicePrint c2 (RecordingUrl r2) (voicePrint p) \<le> 0.85 \<and>
          verifyVoicePrint c3 (RecordingUrl r3) (voicePrint p) \<le> 0.85 \<and>
          process_verification c2 r2 w1 = (t2, w2) \<and>
          process_verification c3 r3 w2 = (t3, w3) \<longrightarrow>
            map_option (verificationAttempts \<circ> snd) (findOne ph (VoiceProfile w1)) = Some 1 \<and>
            map_option (verificationAttempts \<circ> snd) (findOne ph (VoiceProfile w2)) = Some 2 \<and>
            map_option (verificationAttempts \<circ> snd) (findOne ph (VoiceProfile w3)) = Some 3 \<and>
            outcome_of t1 = FAILURE \<and> redis_blocked w1 ph = None \<and>
            outcome_of t2 = FAILURE \<and> redis_blocked w2 ph = None \<and>
            outcome_of t3 = LOCKED_OUT \<and> redis_blocked w3 ph = Some (3600, ''true''))"
proof -
  let ?bump = "\<lambda>q. q\<lparr>verificationAttempts := verificationAttempts q + 1\<rparr>"
  note st1 = process_verification_failure_step [OF c1 s1 p f1 R1]
  have three:
    "map_option (verificationAttempts \<circ> snd) (findOne ph (VoiceProfile w1)) = Some 1 \<and>
     map_option (verificationAttempts \<circ> snd) (findOne ph (VoiceProfile w2)) = Some 2 \<and>
     map_option (verificationAttempts \<circ> snd) (findOne ph (VoiceProfile w3)) = Some 3 \<and>
     outcome_of t1 = FAILURE \<and> redis_blocked w1 ph = None \<and>
     outcome_of t2 = FAILURE \<and> redis_blocked w2 ph = None \<and>
     outcome_of t3 = LOCKED_OUT \<and> redis_blocked w3 ph = Some (3600, ''true'')"
    if zero: "verificationAttempts p = 0" "redis_blocked w ph = None"
      and c2: "redis_get_ok c2 \<and> findOne_ok c2 \<and> profile_save_ok c2 \<and> redis_setex_ok c2"
      and c3: "redis_get_ok c3 \<and> findOne_ok c3 \<and> profile_save_ok c3 \<and> redis_setex_ok c3"
      and s2: "redis_session w (sessionId r2) = Some (ttl2, s2) \<and> session_phoneNumber s2 = ph"
      and s3: "redis_session w (sessionId r3) = Some (ttl3, s3) \<and> session_phoneNumber s3 = ph"
      and f2: "verifyVoicePrint c2 (RecordingUrl r2) (voicePrint p) \<le> 0.85"
      and f3: "verifyVoicePrint c3 (RecordingUrl r3) (voicePrint p) \<le> 0.85"
      and R2: "process_verification c2 r2 w1 = (t2, w2)"
      and R3: "process_verification c3 r3 w2 = (t3, w3)"
  proof -
    have s2': "redis_session w1 (sessionId r2) = Some (ttl2, s2) \<and> session_phoneNumber s2 = ph"
      using st1 s2 by simp
    have q2: "findOne ph (VoiceProfile w1) = Some (i, ?bump p)"
      using st1 by simp
    have f2': "verifyVoicePrint c2 (RecordingUrl r2) (voicePrint (?bump p)) \<le> 0.85"
      using f2 by simp
    note st2 = process_verification_failure_step [OF c2 s2' q2 f2' R2]
    have s3': "redis_session w2 (sessionId r3) = Some (ttl3, s3) \<and> session_phoneNumber s3 = ph"
      using st1 st2 s3 by simp
    have q3: "findOne ph (VoiceProfile w2) = Some (i, ?bump (?bump p))"
      using st2 by simp
    have f3': "verifyVoicePrint c3 (RecordingUrl r3) (voicePrint (?bump (?bump p))) \<le> 0.85"
      using f3 by simp
    note st3 = process_verification_failure_step [OF c3 s3' q3 f3' R3]
    show ?thesis
      using st1 st2 st3 zero by simp
  qed
  from st1 three show ?thesis
    by (intro conjI impI) (elim conjE, simp)+
qed

theorem lockout_when_count_at_least_3_witness:
  "findOne ''+51999888777'' (VoiceProfile (enrolled_world 0)) = Some (0, P1) \<and>
   verificationAttempts P1 = 0 \<and>
   verifyVoicePrint (answering ''x'' 12 0.5) (RecordingUrl (recording ''s-2'')) (voicePrint P1) \<le> 0.85 \<and>
   process_verification (answering ''x'' 12 0.5) (recording ''s-2'') (enrolled_world 0) =
     ([Say Not_verified, Hangup], enrolled_world 1) \<and>
   process_verification (answering ''x'' 12 0.5) (recording ''s-2'') (enrolled_world 1) =
     ([Say Not_verified, Hangup], enrolled_world 2) \<and>
   process_verification (answering ''x'' 12 0.5) (recording ''s-2'') (enrolled_world 2) =
     ([Say Not_verified, Say Account_blocked, Hangup],
      (enrolled_world 3)\<lparr>redis_blocked := [''+51999888777'' \<mapsto> (3600, ''true'')]\<rparr>) \<and>
   redis_blocked (enrolled_world 1) ''+51999888777'' = None \<and>
   redis_blocked (enrolled_world 2) ''+51999888777'' = None \<and>
   redis_blocked ((enrolled_world 3)\<lparr>redis_blocked := [''+51999888777'' \<mapsto> (3600, ''true'')]\<rparr>)
     ''+51999888777'' = Some (3600, ''true'')"
proof -
  let ?c = "answering ''x'' 12 0.5" and ?r = "recording ''s-2''" and ?ph = "''+51999888777''"
  let ?w3 = "(enrolled_world 3)\<lparr>redis_blocked := [?ph \<mapsto> (3600, ''true'')]\<rparr>"
  have c: "redis_get_ok ?c \<and> findOne_ok ?c \<and> profile_save_ok ?c \<and> redis_setex_ok ?c"
    by (simp add: answering_def)
  have s: "redis_session (enrolled_world 0) (sessionId ?r) = Some (3600, S2) \<and>
           session_phoneNumber S2 = ?ph"
    by (simp add: example_defs)
  have p: "findOne ?ph (VoiceProfile (enrolled_world 0)) = Some (0, P1)"
    by (simp add: example_defs)
  have f: "verifyVoicePrint ?c (RecordingUrl ?r) (voicePrint P1) \<le> 0.85"
    by (simp add: verifyVoicePrint_def answering_def)
  have R1: "process_verification ?c ?r (enrolled_world 0) = ([Say Not_verified, Hangup], enrolled_world 1)"
    by (simp add: process_verification_def example_defs verifyVoicePrint_def Let_def)
  have R2: "process_verification ?c ?r (enrolled_world 1) = ([Say Not_verified, Hangup], enrolled_world 2)"
    by (simp add: process_verification_def example_defs verifyVoicePrint_def Let_def)
  have R3: "process_verification ?c ?r (enrolled_world 2) =
              ([Say Not_verified, Say Account_blocked, Hangup], ?w3)"
    by (simp add: process_verification_def example_defs verifyVoicePrint_def Let_def)
  have z: "verificationAttempts P1 = 0 \<and> redis_blocked (enrolled_world 0) ?ph = None"
    by (simp add: example_defs)
  note T = lockout_when_count_at_least_3
    [where ?c2.0 = ?c and ?c3.0 = ?c and ?r2.0 = ?r and ?r3.0 = ?r and ?ttl2.0 = 3600
       and ?ttl3.0 = 3600 and ?s2.0 = S2 and ?s3.0 = S2
       and ?t2.0 = "[Say Not_verified, Hangup]" and ?w2.0 = "enrolled_world 2"
       and ?t3.0 = "[Say Not_verified, Say Account_blocked, Hangup]" and ?w3.0 = ?w3,
     OF c s p f R1]
  from T c s f R2 R3 z
  have "redis_blocked (enrolled_world 1) ?ph = None \<and> redis_blocked (enrolled_world 2) ?ph = None \<and>
        redis_blocked ?w3 ?ph = Some (3600, ''true'')"
    by blast
  with p f R1 R2 R3 z show ?thesis
    by blast
qed

theorem lockout_renewed_above_3_counterexample:
  "redis_blocked (enrolled_world 3) ''+51999888777'' = None \<and>
   map verificationAttempts (VoiceProfile (enrolled_world 3)) = [3] \<and>
   map verificationAttempts (VoiceProfile (snd (process_verification (answering ''x'' 12 0.5)
     (recording ''s-2'') (enrolled_world 3)))) = [4] \<and>
   redis_blocked (snd (process_verification (answering ''x'' 12 0.5)
     (recording ''s-2'') (enrolled_world 3))) ''+51999888777'' = Some (3600, ''true'')"
  by (simp add: process_verification_def example_defs verifyVoicePrint_def Let_def)

subsection \<open>Replaying an enrollment\<close>

text \<open>
  C3. Processing an enrollment for a session id that is not in the store (never
  created, or expired) speaks the apology and changes nothing: no profile, no audit
  document. Processing an enrollment never changes the session keys, whatever happens:
  the session is not consumed. For a session that is in the store, with a recording URL
  in the callback, the stores answering and a fresh user id, it appends a profile for
  the session's phone number, so the same call can be processed again and adds a
  further profile for the same phone number.
\<close>

theorem enrollment_needs_live_session_and_keeps_it:
  "(redis_session w (sessionId req) = None \<longrightarrow>
      process_enrollment c req w = ([Say Enrollment_problem, Hangup], w)) \<and>
   redis_session (snd (process_enrollment c req w)) = redis_session w \<and>
   (redis_get_ok c \<and> redis_session w (sessionId req) = Some (ttl, s) \<and>
    RecordingUrl req = Some url \<and> profile_save_ok c \<and>
    uuidv4 c \<noteq> [] \<and> session_phoneNumber s \<noteq> [] \<and> bcrypt_hashSync c \<noteq> [] \<and>
    uuidv4 c \<notin> userId ` set (VoiceProfile w) \<longrightarrow>
      (\<exists>p. VoiceProfile (snd (process_enrollment c req w)) = VoiceProfile w @ [p] \<and>
           phoneNumber p = session_phoneNumber s \<and> userId p = uuidv4 c \<and>
           verificationAttempts p = 0))"
proof (intro conjI impI)
  assume "redis_session w (sessionId req) = None"
  then show "process_enrollment c req w = ([Say Enrollment_problem, Hangup], w)"
    by (simp add: process_enrollment_def Let_def split: option.splits)
next
  show "redis_session (snd (process_enrollment c req w)) = redis_session w"
    by (simp add: process_enrollment_def Let_def split: option.splits prod.splits)
next
  assume "redis_get_ok c \<and> redis_session w (sessionId req) = Some (ttl, s) \<and>
    RecordingUrl req = Some url \<and> profile_save_ok c \<and>
    uuidv4 c \<noteq> [] \<and> session_phoneNumber s \<noteq> [] \<and> bcrypt_hashSync c \<noteq> [] \<and>
    uuidv4 c \<notin> userId ` set (VoiceProfile w)"
  then show "\<exists>p. VoiceProfile (snd (process_enrollment c req w)) = VoiceProfile w @ [p] \<and>
           phoneNumber p = session_phoneNumber s \<and> userId p = uuidv4 c \<and>
           verificationAttempts p = 0"
    by (simp add: process_enrollment_def insert_accepted_def generateVoicePrint_def Let_def)
qed

theorem enrollment_needs_live_session_and_keeps_it_witness:
  "redis_session empty_world (sessionId (recording ''s-1'')) = None \<and>
   process_enrollment (answering ''u-1'' 12 0.5) (recording ''s-1'') empty_world =
     ([Say Enrollment_problem, Hangup], empty_world) \<and>
   redis_session (empty_world\<lparr>redis_session := [''s-1'' \<mapsto> (3600, S1)]\<rparr>)
     (sessionId (recording ''s-1'')) = Some (3600, S1) \<and>
   RecordingUrl (recording ''s-1'') = Some ''https://api.twilio.com/rec/1'' \<and>
   map phoneNumber (VoiceProfile (snd (process_enrollment (answering ''u-1'' 12 0.5) (recording ''s-1'')
     (empty_world\<lparr>redis_session := [''s-1'' \<mapsto> (3600, S1)]\<rparr>)))) = [''+51999888777''] \<and>
   redis_session (snd (process_enrollment (answering ''u-1'' 12 0.5) (recording ''s-1'')
     (empty_world\<lparr>redis_session := [''s-1'' \<mapsto> (3600, S1)]\<rparr>))) ''s-1'' = Some (3600, S1)"
proof -
  let ?c = "answering ''u-1'' 12 0.5" and ?r = "recording ''s-1''"
  let ?w = "empty_world\<lparr>redis_session := [''s-1'' \<mapsto> (3600, S1)]\<rparr>"
  let ?url = "''https://api.twilio.com/rec/1''"
  have none: "redis_session empty_world (sessionId ?r) = None"
    by (simp add: example_defs)
  have live: "redis_session ?w (sessionId ?r) = Some (3600, S1)"
    by (simp add: example_defs)
  have url: "RecordingUrl ?r = Some ?url"
    by (simp add: recording_def)
  have ok: "redis_get_ok ?c \<and> profile_save_ok ?c \<and> uuidv4 ?c \<noteq> [] \<and>
            session_phoneNumber S1 \<noteq> [] \<and> bcrypt_hashSync ?c \<noteq> [] \<and>
            uuidv4 ?c \<notin> userId ` set (VoiceProfile ?w)"
    by (simp add: example_defs)
  have ph: "session_phoneNumber S1 = ''+51999888777''" and nil: "VoiceProfile ?w = []"
    by (simp_all add: example_defs)
  from enrollment_needs_live_session_and_keeps_it [of empty_world ?r ?c] none
  have expired: "process_enrollment ?c ?r empty_world = ([Say Enrollment_problem, Hangup], empty_world)"
    by blast
  from enrollment_needs_live_session_and_keeps_it [of ?w ?r ?c 3600 S1 ?url] live url ok
  have "(\<exists>p. VoiceProfile (snd (process_enrollment ?c ?r ?w)) = VoiceProfile ?w @ [p] \<and>
             phoneNumber p = session_phoneNumber S1) \<and>
        redis_session (snd (process_enrollment ?c ?r ?w)) = redis_session ?w"
    by blast
  then have "map phoneNumber (VoiceProfile (snd (process_enrollment ?c ?r ?w))) = [''+51999888777''] \<and>
             redis_session (snd (process_enrollment ?c ?r ?w)) ''s-1'' = Some (3600, S1)"
    unfolding ph nil using live by (auto simp: recording_def)
  with none expired live url show ?thesis
    by blast
qed

theorem enrollment_replay_counterexample:
  "redis_session (snd (process_enrollment (answering ''u-1'' 12 0.5) (recording ''s-1'')
      (empty_world\<lparr>redis_session := [''s-1'' \<mapsto> (3600, S1)]\<rparr>))) ''s-1'' = Some (3600, S1) \<and>
   fst (process_enrollment (answering ''u-2'' 12 0.25) (recording ''s-1'')
     (snd (process_enrollment (answering ''u-1'' 12 0.5) (recording ''s-1'')
        (empty_world\<lparr>redis_session := [''s-1'' \<mapsto> (3600, S1)]\<rparr>)))) =
     [Say (Profile_created 550000), Say Thanks, Hangup] \<and>
   map (\<lambda>p. (userId p, phoneNumber p))
     (VoiceProfile (snd (process_enrollment (answering ''u-2'' 12 0.25) (recording ''s-1'')
        (snd (process_enrollment (answering ''u-1'' 12 0.5) (recording ''s-1'')
           (empty_world\<lparr>redis_session := [''s-1'' \<mapsto> (3600, S1)]\<rparr>)))))) =
     [(''u-1'', ''+51999888777''), (''u-2'', ''+51999888777'')]"
  by (simp add: process_enrollment_def example_defs generateVoicePrint_def insert_accepted_def Let_def)

subsection \<open>Audit documents of a verification\<close>

text \<open>
  C4. A verification that ends in SUCCESS has written exactly one audit document,
  VERIFICATION_SUCCESS with the session's risk score; one that ends in FAILURE or in
  LOCKED_OUT has written none.
\<close>

theorem audit_event_only_on_success:
  assumes R: "process_verification c req w = (twiml, w')"
  shows "(outcome_of twiml = SUCCESS \<longrightarrow>
            (\<exists>ttl s. redis_session w (sessionId req) = Some (ttl, s) \<and>
               AuditLog w' = AuditLog w @
                 [\<lparr>audit_sessionId = sessionId req, audit_phoneNumber = session_phoneNumber s,
                   action = ''VERIFICATION_SUCCESS'', result = ''SUCCESS'',
                   timestamp = new_Date c, ipAddress = None,
                   audit_riskScore = session_riskScore s\<rparr>])) \<and>
         (outcome_of twiml = FAILURE \<or> outcome_of twiml = LOCKED_OUT \<longrightarrow> AuditLog w' = AuditLog w)"
  using R
  by (auto simp: process_verification_def Let_def outcome_of_def
           split: option.splits if_splits prod.splits)

theorem audit_event_only_on_success_witness:
  "process_verification (answering ''x'' 12 0.9) (recording ''s-2'') (enrolled_world 0) =
     ([Say Verified, Hangup],
      snd (process_verification (answering ''x'' 12 0.9) (recording ''s-2'') (enrolled_world 0))) \<and>
   outcome_of [Say Verified, Hangup] = SUCCESS \<and>
   AuditLog (snd (process_verification (answering ''x'' 12 0.9) (recording ''s-2'') (enrolled_world 0))) =
     [\<lparr>audit_sessionId = ''s-2'', audit_phoneNumber = ''+51999888777'',
       action = ''VERIFICATION_SUCCESS'', result = ''SUCCESS'', timestamp = at_hour 12,
       ipAddress = None, audit_riskScore = Some 0\<rparr>]"
proof -
  let ?c = "answering ''x'' 12 0.9" and ?r = "recording ''s-2''"
  let ?w' = "snd (process_verification ?c ?r (enrolled_world 0))"
  have R: "process_verification ?c ?r (enrolled_world 0) = ([Say Verified, Hangup], ?w')"
    by (simp add: process_verification_def example_defs verifyVoicePrint_def Let_def)
  have o: "outcome_of [Say Verified, Hangup] = SUCCESS"
    by (simp add: outcome_of_def)
  have s: "redis_session (enrolled_world 0) (sessionId ?r) = Some (3600, S2)"
    by (simp add: example_defs)
  from audit_event_only_on_success [OF R] o s
  have "AuditLog ?w' = AuditLog (enrolled_world 0) @
          [\<lparr>audit_sessionId = sessionId ?r, audit_phoneNumber = session_phoneNumber S2,
            action = ''VERIFICATION_SUCCESS'', result = ''SUCCESS'',
            timestamp = new_Date ?c, ipAddress = None,
            audit_riskScore = session_riskScore S2\<rparr>]"
    by auto
  then have "AuditLog ?w' =
     [\<lparr>audit_sessionId = ''s-2'', audit_phoneNumber = ''+51999888777'',
       action = ''VERIFICATION_SUCCESS'', result = ''SUCCESS'', timestamp = at_hour 12,
       ipAddress = None, audit_riskScore = Some 0\<rparr>]"
    by (simp add: example_defs)
  with R o show ?thesis
    by blast
qed

theorem failure_and_lockout_emit_no_audit_event_counterexample:
  "outcome_of (fst (process_verification (answering ''x'' 12 0.5) (recording ''s-2'')
     (enrolled_world 0))) = FAILURE \<and>
   AuditLog (enrolled_world 0) = [] \<and>
   AuditLog (snd (process_verification (answering ''x'' 12 0.5) (recording ''s-2'')
     (enrolled_world 0))) = [] \<and>
   outcome_of (fst (process_verification (answering ''x'' 12 0.5) (recording ''s-2'')
     (enrolled_world 2))) = LOCKED_OUT \<and>
   AuditLog (enrolled_world 2) = [] \<and>
   AuditLog (snd (process_verification (answering ''x'' 12 0.5) (recording ''s-2'')
     (enrolled_world 2))) = []"
  by (simp add: process_verification_def example_defs verifyVoicePrint_def outcome_of_def Let_def)

subsection \<open>The risk score and the clock\<close>

text \<open>
  C5. The risk score is determined by the transaction type, the amount and the
  local hour on the clock at the call: two calls at instants with the same hour return
  the same number. The hour is not an argument; the function reads the clock. It
  returns a number and changes no state.
\<close>

theorem risk_score_depends_on_clock_hour_only:
  "getHours d1 = getHours d2 \<Longrightarrow> calculateRiskScore d1 ty a = calculateRiskScore d2 ty a"
  by (simp add: calculateRiskScore_def)

theorem risk_score_depends_on_clock_hour_only_witness:
  "getHours \<lparr>getTime = 1705314600000, getHours = 23\<rparr> = getHours \<lparr>getTime = 1705401000000, getHours = 23\<rparr> \<and>
   calculateRiskScore \<lparr>getTime = 1705314600000, getHours = 23\<rparr> ''CRYPTO'' (Finite 6000) = 80 \<and>
   calculateRiskScore \<lparr>getTime = 1705401000000, getHours = 23\<rparr> ''CRYPTO'' (Finite 6000) = 80"
proof -
  have h: "getHours \<lparr>getTime = 1705314600000, getHours = 23\<rparr> =
           getHours \<lparr>getTime = 1705401000000, getHours = 23\<rparr>"
    by simp
  have v: "calculateRiskScore \<lparr>getTime = 1705314600000, getHours = 23\<rparr> ''CRYPTO'' (Finite 6000) = 80"
    by (simp add: calculateRiskScore_def Let_def)
  from risk_score_depends_on_clock_hour_only [OF h, of "''CRYPTO''" "Finite 6000"] h v show ?thesis
    by simp
qed

theorem risk_score_varies_with_time_counterexample:
  "calculateRiskScore \<lparr>getTime = 1705284000000, getHours = 2\<rparr> ''TRANSFER'' (Finite 100) = 15 \<and>
   calculateRiskScore \<lparr>getTime = 1705320000000, getHours = 12\<rparr> ''TRANSFER'' (Finite 100) = 0 \<and>
   calculateRiskScore \<lparr>getTime = 1705284000000, getHours = 2\<rparr> ''TRANSFER'' (Finite 100) \<noteq>
   calculateRiskScore \<lparr>getTime = 1705320000000, getHours = 12\<rparr> ''TRANSFER'' (Finite 100)"
  by (simp add: calculateRiskScore_def Let_def)

subsection \<open>Range and monotonicity of the risk score\<close>

text \<open>
  C6. For every transaction type, amount and clock, the risk score is a natural
  number of at most 100; for a fixed type and clock it does not decrease when the amount
  grows; and a CRYPTO transaction of 12000 at two o'clock at night scores 100.
\<close>

theorem calculateRiskScore_range_mono:
  "calculateRiskScore now ty a \<le> 100 \<and>
   (js_le a b \<longrightarrow> calculateRiskScore now ty a \<le> calculateRiskScore now ty b) \<and>
   calculateRiskScore \<lparr>getTime = t, getHours = 2\<rparr> ''CRYPTO'' (Finite 12000) = 100"
proof (intro conjI impI)
  show "calculateRiskScore now ty a \<le> 100"
    by (simp add: calculateRiskScore_def Let_def)
next
  assume le: "js_le a b"
  have m1: "js_gt a 5000 \<Longrightarrow> js_gt b 5000" and m2: "js_gt a 10000 \<Longrightarrow> js_gt b 10000"
    using le by (auto intro: js_gt_mono)
  show "calculateRiskScore now ty a \<le> calculateRiskScore now ty b"
    using m1 m2 by (auto simp: calculateRiskScore_def Let_def)
next
  show "calculateRiskScore \<lparr>getTime = t, getHours = 2\<rparr> ''CRYPTO'' (Finite 12000) = 100"
    by (simp add: calculateRiskScore_def Let_def)
qed

theorem calculateRiskScore_range_mono_witness:
  "js_le (Finite 6000) (Finite 12000) \<and>
   calculateRiskScore (at_hour 12) ''TRANSFER'' (Finite 6000) = 30 \<and>
   calculateRiskScore (at_hour 12) ''TRANSFER'' (Finite 12000) = 50 \<and>
   calculateRiskScore (at_hour 12) ''TRANSFER'' (Finite 6000)
     \<le> calculateRiskScore (at_hour 12) ''TRANSFER'' (Finite 12000)"
proof -
  have le: "js_le (Finite 6000) (Finite 12000)"
    by simp
  have v: "calculateRiskScore (at_hour 12) ''TRANSFER'' (Finite 6000) = 30"
          "calculateRiskScore (at_hour 12) ''TRANSFER'' (Finite 12000) = 50"
    by (simp_all add: calculateRiskScore_def at_hour_def Let_def)
  from calculateRiskScore_range_mono
    [of "at_hour 12" "''TRANSFER''" "Finite 6000" "Finite 12000" 0] le
  have "calculateRiskScore (at_hour 12) ''TRANSFER'' (Finite 6000)
          \<le> calculateRiskScore (at_hour 12) ''TRANSFER'' (Finite 12000)"
    by blast
  with le v show ?thesis
    by blast
qed

subsection \<open>A transfer of 5000\<close>

text \<open>
  C7. For an enrolled phone number, a TRANSFER of exactly 5000 whose call is placed
  and whose session is stored yields a VERIFICATION session with risk score 0, or 15
  when the local hour is before 6 or after 22, and the band LOW: 5000 is not above the
  first amount threshold.
\<close>

theorem initiate_transfer_5000_is_low:
  assumes "findOne_ok c" and "findOne ph (VoiceProfile w) = Some (i, p)"
    and "calls_create c = Some sid" and "redis_setex_ok c"
  shows "fst (initiate c ph ''TRANSFER'' (Finite 5000) w) = Verification_started (uuidv4 c) ''LOW'' \<and>
         (\<exists>s. redis_session (snd (initiate c ph ''TRANSFER'' (Finite 5000) w)) (uuidv4 c) = Some (3600, s) \<and>
              session_type s = ''VERIFICATION'' \<and> session_phoneNumber s = ph \<and>
              session_riskScore s =
                Some (if getHours (new_Date c) < 6 \<or> 22 < getHours (new_Date c) then 15 else 0))"
  using assms by (simp add: initiate_def calculateRiskScore_def riskLevel_def Let_def)

theorem initiate_transfer_5000_is_low_witness:
  "findOne ''+51999888777'' (VoiceProfile (enrolled_world 0)) = Some (0, P1) \<and>
   fst (initiate (answering ''s-9'' 23 0.5) ''+51999888777'' ''TRANSFER'' (Finite 5000) (enrolled_world 0)) =
     Verification_started ''s-9'' ''LOW'' \<and>
   (\<exists>s. redis_session (snd (initiate (answering ''s-9'' 23 0.5) ''+51999888777'' ''TRANSFER''
           (Finite 5000) (enrolled_world 0))) ''s-9'' = Some (3600, s) \<and>
        session_type s = ''VERIFICATION'' \<and> session_riskScore s = Some 15)"
proof -
  let ?c = "answering ''s-9'' 23 0.5"
  have a: "findOne_ok ?c" and b: "calls_create ?c = Some ''CA9''" and d: "redis_setex_ok ?c"
    by (simp_all add: answering_def)
  have p: "findOne ''+51999888777'' (VoiceProfile (enrolled_world 0)) = Some (0, P1)"
    by (simp add: example_defs)
  have u: "uuidv4 ?c = ''s-9''" and h: "getHours (new_Date ?c) = 23"
    by (simp_all add: answering_def at_hour_def)
  from initiate_transfer_5000_is_low [OF a p b d] p show ?thesis
    unfolding u h by auto
qed

theorem initiate_transfer_5000_counterexample:
  "findOne ''+51999888777'' (VoiceProfile (enrolled_world 0)) = Some (0, P1) \<and>
   fst (initiate (answering ''s-9'' 12 0.5) ''+51999888777'' ''TRANSFER'' (Finite 5000) (enrolled_world 0)) =
     Verification_started ''s-9'' ''LOW'' \<and>
   map_option (session_riskScore \<circ> snd)
     (redis_session (snd (initiate (answering ''s-9'' 12 0.5) ''+51999888777'' ''TRANSFER''
        (Finite 5000) (enrolled_world 0))) ''s-9'') = Some (Some 0) \<and>
   \<not> (fst (initiate (answering ''s-9'' 12 0.5) ''+51999888777'' ''TRANSFER'' (Finite 5000)
          (enrolled_world 0)) = Verification_started ''s-9'' ''MEDIUM'' \<and>
      map_option (session_riskScore \<circ> snd)
        (redis_session (snd (initiate (answering ''s-9'' 12 0.5) ''+51999888777'' ''TRANSFER''
           (Finite 5000) (enrolled_world 0))) ''s-9'') = Some (Some 30))"
  by (simp add: initiate_def example_defs calculateRiskScore_def riskLevel_def Let_def)

subsection \<open>A successful verification\<close>

text \<open>
  C8. When the session and the profile are found, the profile store accepts the
  write and the score is above 0.85, the stored profile afterwards has a failure count
  of 0, whatever it was, and \<open>lastVerification\<close> at the instant of the request. This
  holds even when the confirmation message or the audit write fails afterwards.
\<close>

theorem success_resets_failure_count:
  assumes "redis_get_ok c \<and> findOne_ok c \<and> profile_save_ok c"
    and "redis_session w (sessionId req) = Some (ttl, s)"
    and q: "findOne (session_phoneNumber s) (VoiceProfile w) = Some (i, p)"
    and "0.85 < verifyVoicePrint c (RecordingUrl req) (voicePrint p)"
  shows "findOne (session_phoneNumber s) (VoiceProfile (snd (process_verification c req w))) =
           Some (i, p\<lparr>lastVerification := Some (new_Date c), verificationAttempts := 0\<rparr>)"
proof -
  let ?p' = "p\<lparr>lastVerification := Some (new_Date c), verificationAttempts := 0\<rparr>"
  have "phoneNumber ?p' = session_phoneNumber s"
    using findOne_SomeD [OF q] by simp
  from findOne_update [OF q this] show ?thesis
    using assms by (simp add: process_verification_success_profiles [where ttl = ttl and s = s])
qed

theorem success_resets_failure_count_witness:
  "findOne ''+51999888777'' (VoiceProfile (enrolled_world 2)) =
     Some (0, P1\<lparr>verificationAttempts := 2\<rparr>) \<and>
   0.85 < verifyVoicePrint (answering ''x'' 12 0.9) (RecordingUrl (recording ''s-2''))
     (voicePrint (P1\<lparr>verificationAttempts := 2\<rparr>)) \<and>
   findOne ''+51999888777'' (VoiceProfile (snd (process_verification (answering ''x'' 12 0.9)
       (recording ''s-2'') (enrolled_world 2)))) =
     Some (0, P1\<lparr>lastVerification := Some (at_hour 12), verificationAttempts := 0\<rparr>)"
proof -
  let ?c = "answering ''x'' 12 0.9" and ?r = "recording ''s-2''" and ?ph = "''+51999888777''"
  let ?p = "P1\<lparr>verificationAttempts := 2\<rparr>"
  have c: "redis_get_ok ?c \<and> findOne_ok ?c \<and> profile_save_ok ?c"
    by (simp add: answering_def)
  have s: "redis_session (enrolled_world 2) (sessionId ?r) = Some (3600, S2)"
    by (simp add: example_defs)
  have ph: "session_phoneNumber S2 = ?ph"
    by (simp add: S2_def)
  have p: "findOne (session_phoneNumber S2) (VoiceProfile (enrolled_world 2)) = Some (0, ?p)"
    by (simp add: example_defs)
  have f: "0.85 < verifyVoicePrint ?c (RecordingUrl ?r) (voicePrint ?p)"
    by (simp add: verifyVoicePrint_def answering_def)
  from success_resets_failure_count [OF c s p f] p f show ?thesis
    unfolding ph by (simp add: answering_def)
qed

subsection \<open>Call placement before the session write\<close>

text \<open>
  C9. When \<open>client.calls.create\<close> throws, initiate answers with status 500 and
  leaves the session keys as they were. Whenever initiate changes the session keys, the
  call was placed before: the provider returned a call sid, the call to that phone
  number is the last one recorded, and the one session written carries that sid.
\<close>

theorem session_written_only_after_call_placed:
  "(calls_create c = None \<longrightarrow>
      fst (initiate c ph ty a w) = Status_500 \<and>
      redis_session (snd (initiate c ph ty a w)) = redis_session w) \<and>
   (redis_session (snd (initiate c ph ty a w)) \<noteq> redis_session w \<longrightarrow>
      (\<exists>sid request s.
         calls_create c = Some sid \<and>
         calls (snd (initiate c ph ty a w)) = calls w @ [(request, Some sid)] \<and>
         call_to request = ph \<and>
         redis_session (snd (initiate c ph ty a w)) = (redis_session w)(uuidv4 c \<mapsto> (3600, s)) \<and>
         session_phoneNumber s = ph \<and> callSid s = sid))"
  by (cases "findOne ph (VoiceProfile w)"; cases "calls_create c")
     (auto simp: initiate_def Let_def)

theorem session_written_only_after_call_placed_witness:
  "calls_create ((answering ''s-9'' 12 0.5)\<lparr>calls_create := None\<rparr>) = None \<and>
   fst (initiate ((answering ''s-9'' 12 0.5)\<lparr>calls_create := None\<rparr>) ''+51999888777''
     ''TRANSFER'' (Finite 5000) (enrolled_world 0)) = Status_500 \<and>
   redis_session (snd (initiate ((answering ''s-9'' 12 0.5)\<lparr>calls_create := None\<rparr>)
     ''+51999888777'' ''TRANSFER'' (Finite 5000) (enrolled_world 0))) = redis_session (enrolled_world 0) \<and>
   redis_session (snd (initiate (answering ''s-9'' 12 0.5) ''+51999888777'' ''TRANSFER''
     (Finite 5000) (enrolled_world 0))) \<noteq> redis_session (enrolled_world 0) \<and>
   (\<exists>request. calls (snd (initiate (answering ''s-9'' 12 0.5) ''+51999888777'' ''TRANSFER''
      (Finite 5000) (enrolled_world 0))) = [(request, Some ''CA9'')])"
proof -
  let ?c = "answering ''s-9'' 12 0.5" and ?ph = "''+51999888777''" and ?w = "enrolled_world 0"
  let ?d = "?c\<lparr>calls_create := None\<rparr>"
  have none: "calls_create ?d = None"
    by simp
  have "redis_session (snd (initiate ?c ?ph ''TRANSFER'' (Finite 5000) ?w)) ''s-9''
          \<noteq> redis_session ?w ''s-9''"
    by (simp add: initiate_def example_defs Let_def)
  then have changed: "redis_session (snd (initiate ?c ?ph ''TRANSFER'' (Finite 5000) ?w)) \<noteq> redis_session ?w"
    by metis
  have sid: "calls_create ?c = Some ''CA9''" and nil: "calls ?w = []"
    by (simp_all add: example_defs)
  from session_written_only_after_call_placed [of ?d ?ph "''TRANSFER''" "Finite 5000" ?w] none
  have failing: "fst (initiate ?d ?ph ''TRANSFER'' (Finite 5000) ?w) = Status_500 \<and>
                 redis_session (snd (initiate ?d ?ph ''TRANSFER'' (Finite 5000) ?w)) = redis_session ?w"
    by blast
  from session_written_only_after_call_placed [of ?c ?ph "''TRANSFER''" "Finite 5000" ?w] changed
  have "\<exists>request. calls (snd (initiate ?c ?ph ''TRANSFER'' (Finite 5000) ?w)) = [(request, Some ''CA9'')]"
    unfolding sid nil by auto
  with none failing changed show ?thesis
    by blast
qed

subsection \<open>The challenge and the outcome\<close>

text \<open>
  C10. Processing a verification does not read the challenge keys: with any other
  content of the challenge keys the script spoken and the outcome are the same, and the
  resulting state differs only in those keys. In particular the outcome is the same
  after two runs of the verify handler that drew different challenges.
\<close>

theorem verification_ignores_challenge:
  "fst (process_verification c req (w\<lparr>redis_challenge := ch\<rparr>)) = fst (process_verification c req w) \<and>
   outcome_of (fst (process_verification c req (w\<lparr>redis_challenge := ch\<rparr>))) =
     outcome_of (fst (process_verification c req w)) \<and>
   snd (process_verification c req (w\<lparr>redis_challenge := ch\<rparr>)) =
     (snd (process_verification c req w))\<lparr>redis_challenge := ch\<rparr> \<and>
   outcome_of (fst (process_verification c req (snd (verify c1 sid w)))) =
     outcome_of (fst (process_verification c req (snd (verify c2 sid w))))"
proof -
  have a: "process_verification c req (v\<lparr>redis_challenge := ch'\<rparr>) =
           (fst (process_verification c req v),
            (snd (process_verification c req v))\<lparr>redis_challenge := ch'\<rparr>)" for v ch'
    by (simp add: process_verification_def Let_def split: option.splits prod.splits)
  have b: "fst (process_verification c req (snd (verify c' sid w))) = fst (process_verification c req w)"
    for c'
    by (simp add: verify_def Let_def a)
  show ?thesis
    by (simp add: a b)
qed

end
